theory Spec2Isabelle
  imports
    Complex_Main
    "HOL-Library.Multiset"
    "HOL-Library.Char_ord"
    "HOL-Library.List_Lexorder"
    "HOL-Library.Product_Lexorder"
    "HOL-Library.Code_Target_Nat"
begin

section \<open>The budget tracker of \<^verbatim>\<open>app.py\<close>\<close>

text \<open>
  The program keeps one pandas DataFrame in a reactive cell (\<^verbatim>\<open>budget_data\<close>), shows two
  derived tables and a month selector, and has two actions: add a transaction and clear
  everything. The embedding below follows the source function by function.

  Conventions of the embedding.
  \<^item> A DataFrame is the list of its rows, in index order. The stored frame may carry one
    extra column, \<^verbatim>\<open>YearMonth\<close>, which two of the readers assign in place: the frame is a
    record of the rows and of that optional column.
  \<^item> The \<^verbatim>\<open>Amount\<close> column holds float64 values. Every float64 is a rational number, so an
    amount is a \<open>rat\<close>; sums are the exact sums. The rounding error of float64 addition and
    the negative zero are outside the embedding (a sum between -0.005 and 0 is rounded to
    the negative zero and rendered \<^verbatim>\<open>$-0.00\<close> by the program, \<^verbatim>\<open>$0.00\<close> here). The explicit
    rounding of the source, \<^verbatim>\<open>.round(2)\<close> and the \<^verbatim>\<open>.2f\<close> of the format specification, is
    modelled (half to even).
  \<^item> The \<^verbatim>\<open>Date\<close> column holds pandas timestamps at midnight: a date is a record of year,
    month and day.
  \<^item> \<^verbatim>\<open>DataFrame.sort_values\<close> is called with its default \<^verbatim>\<open>kind='quicksort'\<close>, which the
    library documents as not stable. Its code is not part of the program, so each function
    that calls it takes the sorting function as a parameter \<open>srt\<close>; the theorems assume of
    it what the library guarantees (\<open>sorts_by\<close>: the result is a permutation of the rows,
    ordered by the key).
  \<^item> The text inputs of the form always hold a string (empty when blank), the numeric input
    a number, the date input a date. The selected month is the period that
    \<^verbatim>\<open>pd.Period(input.selected_month())\<close> parses from the chosen key, or \<open>None\<close>.
\<close>

subsection \<open>Decimal rendering\<close>

definition digit_char :: "nat \<Rightarrow> char" where
  "digit_char d = char_of (48 + d)"

text \<open>\<^verbatim>\<open>str(n)\<close> for a natural number.\<close>

fun str_nat :: "nat \<Rightarrow> string" where
  "str_nat n = (if n < 10 then [digit_char n] else str_nat (n div 10) @ [digit_char (n mod 10)])"

declare str_nat.simps [simp del]

text \<open>The last \<open>w\<close> decimal digits of \<open>n\<close>, zero padded: \<^verbatim>\<open>%0wd\<close> for \<open>n < 10 ^ w\<close>.\<close>

fun fixed_digits :: "nat \<Rightarrow> nat \<Rightarrow> string" where
  "fixed_digits 0 n = []"
| "fixed_digits (Suc w) n = fixed_digits w (n div 10) @ [digit_char (n mod 10)]"

text \<open>The \<^verbatim>\<open>,\<close> option of the format specification: digits in groups of three.\<close>

fun group_thousands :: "nat \<Rightarrow> string" where
  "group_thousands n =
     (if n < 1000 then str_nat n
      else group_thousands (n div 1000) @ '','' @ fixed_digits 3 (n mod 1000))"

declare group_thousands.simps [simp del]

text \<open>Rounding to the nearest integer, ties to the even one (\<^verbatim>\<open>rint\<close>).\<close>

definition rint :: "rat \<Rightarrow> int" where
  "rint x =
     (let f = \<lfloor>x\<rfloor>; r = x - of_int f
      in if r < 1 / 2 then f else if 1 / 2 < r then f + 1 else if even f then f else f + 1)"

text \<open>\<^verbatim>\<open>.round(2)\<close> on a number.\<close>

definition round2 :: "rat \<Rightarrow> rat" where
  "round2 x = of_int (rint (x * 100)) / 100"


text \<open>\<^verbatim>\<open>f"${x:,.2f}"\<close>: the sign follows the dollar character.\<close>

definition fmt_currency :: "rat \<Rightarrow> string" where
  "fmt_currency x =
     (let k = nat (rint (\<bar>x\<bar> * 100))
      in ''$'' @ (if x < 0 then ''-'' else '''') @ group_thousands (k div 100) @ ''.''
           @ fixed_digits 2 (k mod 100))"

subsection \<open>Dates and periods\<close>

record date =
  year :: nat
  month :: nat
  day :: nat

text \<open>A monthly period, \<^verbatim>\<open>to_period('M')\<close>: year and month, ordered year first.\<close>

type_synonym period = "nat \<times> nat"

definition to_period :: "date \<Rightarrow> period" where
  "to_period d = (year d, month d)"



text \<open>\<^verbatim>\<open>strftime('%Y-%m-%d')\<close> and \<^verbatim>\<open>str\<close> of a monthly period.\<close>

definition strftime :: "date \<Rightarrow> string" where
  "strftime d = fixed_digits 4 (year d) @ ''-'' @ fixed_digits 2 (month d) @ ''-''
     @ fixed_digits 2 (day d)"

definition period_str :: "period \<Rightarrow> string" where
  "period_str p = fixed_digits 4 (fst p) @ ''-'' @ fixed_digits 2 (snd p)"

text \<open>\<^verbatim>\<open>calendar.month_name\<close>: thirteen entries, the first one empty.\<close>

definition month_name :: "string list" where
  "month_name = ['''', ''January'', ''February'', ''March'', ''April'', ''May'', ''June'', ''July'',
     ''August'', ''September'', ''October'', ''November'', ''December'']"

text \<open>The label of a choice; a period's month is between 1 and 12, inside the table.\<close>

definition month_label :: "period \<Rightarrow> string" where
  "month_label p = (if snd p < length month_name then month_name ! snd p else '''')
     @ '' '' @ str_nat (fst p)"

subsection \<open>The stored frame\<close>

definition BUDGET_CATEGORIES :: "string list" where
  "BUDGET_CATEGORIES = [''Housing'', ''Food'', ''Clothing'', ''Education'', ''Transportation'',
     ''Communications'', ''Health'', ''Recreation'', ''Other'', ''Debt'', ''Fast Offering'',
     ''Tithing'', ''Income'']"

record transaction =
  Date :: date
  Description :: string
  Amount :: rat
  Vendor :: string
  Budget_Category :: string
  Buyer :: string
  Notes :: string

text \<open>
  The frame in the reactive cell. \<open>YearMonth\<close> is \<open>None\<close> while the frame has no such
  column; a cell of the column is \<open>None\<close> where pandas holds \<^verbatim>\<open>NaT\<close>.
\<close>

record frame =
  rows :: "transaction list"
  YearMonth :: "period option list option"

definition mk_date :: "nat \<Rightarrow> nat \<Rightarrow> nat \<Rightarrow> date" where
  "mk_date y m d = \<lparr>year = y, month = m, day = d\<rparr>"

definition get_sample_data :: frame where
  "get_sample_data = \<lparr>rows =
     [\<lparr>Date = mk_date 2024 1 15, Description = ''Rent Payment'', Amount = - 1200,
        Vendor = ''Property Management'', Budget_Category = ''Housing'', Buyer = ''John'',
        Notes = ''Monthly rent for apartment''\<rparr>,
      \<lparr>Date = mk_date 2024 1 20, Description = ''Grocery Store'', Amount = - (171 / 2),
        Vendor = ''Safeway'', Budget_Category = ''Food'', Buyer = ''Jane'',
        Notes = ''Weekly grocery shopping''\<rparr>,
      \<lparr>Date = mk_date 2024 1 25, Description = ''Gas Station'', Amount = - 45,
        Vendor = ''Shell'', Budget_Category = ''Transportation'', Buyer = ''John'',
        Notes = ''Fill up tank''\<rparr>,
      \<lparr>Date = mk_date 2024 2 5, Description = ''Internet Bill'', Amount = - 75,
        Vendor = ''Comcast'', Budget_Category = ''Communications'', Buyer = ''John'',
        Notes = ''Monthly internet service''\<rparr>,
      \<lparr>Date = mk_date 2024 2 10, Description = ''Restaurant'', Amount = - 32,
        Vendor = ''Local Diner'', Budget_Category = ''Food'', Buyer = ''Jane'',
        Notes = ''Dinner with friends''\<rparr>,
      \<lparr>Date = mk_date 2024 2 15, Description = ''Salary'', Amount = 3500,
        Vendor = ''Company'', Budget_Category = ''Income'', Buyer = ''John'',
        Notes = ''Bi-weekly paycheck''\<rparr>],
     YearMonth = None\<rparr>"

subsection \<open>Library operations\<close>

text \<open>\<^verbatim>\<open>Series.unique()\<close>: the distinct values in order of first appearance.\<close>

fun unique :: "'a list \<Rightarrow> 'a list" where
  "unique [] = []"
| "unique (x # xs) = x # unique (filter (\<lambda>y. y \<noteq> x) xs)"

text \<open>
  \<^verbatim>\<open>sorted(xs, reverse=True)\<close>: Python reverses the list, sorts it with its stable sort
  and reverses the result.
\<close>

definition sorted_reverse :: "'a::linorder list \<Rightarrow> 'a list" where
  "sorted_reverse xs = rev (sort_key (\<lambda>x. x) (rev xs))"




text \<open>
  The column computed by \<^verbatim>\<open>data['Date'].dt.to_period('M')\<close>, and the assignment
  \<^verbatim>\<open>data['YearMonth'] = ...\<close> of it to the frame, which happens in place: \<^verbatim>\<open>data\<close> is the
  object held by the reactive cell.
\<close>

definition to_period_column :: "frame \<Rightarrow> period list" where
  "to_period_column data = map (\<lambda>t. to_period (Date t)) (rows data)"

definition assign_YearMonth :: "frame \<Rightarrow> frame" where
  "assign_YearMonth data = data\<lparr>YearMonth := Some (map Some (to_period_column data))\<rparr>"

text \<open>
  \<^verbatim>\<open>pd.concat([current_data, new_transaction], ignore_index=True)\<close> with a one-row frame that
  has the seven columns of a transaction: a \<^verbatim>\<open>YearMonth\<close> column of the current frame
  is kept and gets an empty cell for the new row.
\<close>

definition concat_row :: "frame \<Rightarrow> transaction \<Rightarrow> frame" where
  "concat_row current_data t =
     \<lparr>rows = rows current_data @ [t],
      YearMonth = map_option (\<lambda>col. col @ [None]) (YearMonth current_data)\<rparr>"

subsection \<open>The month selector\<close>

datatype ui_element =
  Paragraph string
| Input_Select (choices: "(string \<times> string) list") (selected: "string option")

text \<open>\<^verbatim>\<open>sorted(data['YearMonth'].unique(), reverse=True)\<close>, on the column just assigned.\<close>

definition unique_months :: "frame \<Rightarrow> period list" where
  "unique_months data = sorted_reverse (unique (to_period_column data))"

text \<open>The reader returns what it renders and the frame as it leaves it.\<close>

definition month_selector :: "frame \<Rightarrow> ui_element \<times> frame" where
  "month_selector data =
     (if length (rows data) = 0 then (Paragraph ''No data available'', data)
      else
        let data' = assign_YearMonth data;
            months = unique_months data
        in if length months = 0 then (Paragraph ''No data available'', data')
           else (Input_Select (map (\<lambda>m. (period_str m, month_label m)) months)
                   (case months of [] \<Rightarrow> None | m # _ \<Rightarrow> Some (period_str m)),
                 data'))"

text \<open>The months the selector offers, as periods: none when it shows the paragraph.\<close>

definition available_months :: "frame \<Rightarrow> period list" where
  "available_months data = (if length (rows data) = 0 then [] else unique_months data)"

subsection \<open>Monthly category totals\<close>

record total_row =
  Category :: string
  Total :: string
  Transaction_Count :: nat

text \<open>\<^verbatim>\<open>data[data['YearMonth'] == selected_period]\<close>, the mask taken from the column.\<close>

definition select_month :: "frame \<Rightarrow> period \<Rightarrow> transaction list" where
  "select_month data p =
     map fst (filter (\<lambda>(t, ym). ym = p) (zip (rows data) (to_period_column data)))"

text \<open>
  \<^verbatim>\<open>groupby('Budget_Category').agg({'Amount': ['sum', 'count']})\<close>: one row for each key that
  occurs, the keys in ascending order (\<^verbatim>\<open>sort=True\<close> is the default).
\<close>

definition groupby_agg :: "transaction list \<Rightarrow> (string \<times> rat \<times> nat) list" where
  "groupby_agg monthly_data =
     map (\<lambda>k. (k, sum_list (map Amount (filter (\<lambda>t. Budget_Category t = k) monthly_data)),
                length (filter (\<lambda>t. Budget_Category t = k) monthly_data)))
       (sort_key (\<lambda>k. k) (remdups (map Budget_Category monthly_data)))"

text \<open>\<^verbatim>\<open>.round(2)\<close>: the sums are rounded, the integer counts are left as they are.\<close>

definition round_agg :: "(string \<times> rat \<times> nat) list \<Rightarrow> (string \<times> rat \<times> nat) list" where
  "round_agg = map (\<lambda>(k, s, c). (k, round2 s, c))"

text \<open>The numeric table: categories, rounded sums, counts.\<close>

definition category_totals :: "transaction list \<Rightarrow> (string \<times> rat \<times> nat) list" where
  "category_totals monthly_data = round_agg (groupby_agg monthly_data)"

text \<open>The renamed columns, with \<^verbatim>\<open>Total\<close> formatted as currency.\<close>

definition format_total :: "string \<times> rat \<times> nat \<Rightarrow> total_row" where
  "format_total r = (case r of (k, s, c) \<Rightarrow>
     \<lparr>Category = k, Total = fmt_currency s, Transaction_Count = c\<rparr>)"

text \<open>
  The reader returns its table and the frame as it leaves it. The first test of the source
  returns the empty table for a frame without rows and for no selected month alike; the
  column is assigned before the month is selected.
\<close>

definition monthly_totals ::
  "(total_row list \<Rightarrow> total_row list) \<Rightarrow> frame \<Rightarrow> period option \<Rightarrow> total_row list \<times> frame" where
  "monthly_totals srt data selected_month =
     (case selected_month of
        None \<Rightarrow> ([], data)
      | Some selected_period \<Rightarrow>
          if length (rows data) = 0 then ([], data)
          else
            let data' = assign_YearMonth data;
                monthly_data = select_month data selected_period
            in if length monthly_data = 0 then ([], data')
               else (srt (map format_total (category_totals monthly_data)), data'))"

subsection \<open>All transactions\<close>

record display_row =
  d_Date :: string
  d_Description :: string
  d_Amount :: string
  d_Vendor :: string
  d_Category :: string
  d_Buyer :: string
  d_Notes :: string

text \<open>One row of \<^verbatim>\<open>display_data\<close>: the amount and the date become strings.\<close>

definition display :: "transaction \<Rightarrow> display_row" where
  "display t =
     \<lparr>d_Date = strftime (Date t), d_Description = Description t,
      d_Amount = fmt_currency (Amount t), d_Vendor = Vendor t,
      d_Category = Budget_Category t, d_Buyer = Buyer t, d_Notes = Notes t\<rparr>"

text \<open>
  The table is built on \<^verbatim>\<open>data.copy()\<close>, so the frame is only read. The rows are sorted on
  the \<^verbatim>\<open>Date\<close> column of the copy, which holds the formatted strings, descending.
\<close>

definition all_transactions :: "(display_row list \<Rightarrow> display_row list) \<Rightarrow> frame \<Rightarrow> display_row list" where
  "all_transactions srt data =
     (if length (rows data) = 0 then [] else srt (map display (rows data)))"

subsection \<open>The two actions\<close>

datatype error = SilentException

record form_input =
  in_date :: date
  in_description :: string
  in_amount :: rat
  in_vendor :: string
  in_category :: string
  in_buyer :: string
  in_notes :: string

text \<open>\<^verbatim>\<open>req\<close> raises \<^verbatim>\<open>SilentException\<close> at the first argument that is not truthy.\<close>

fun req :: "string list \<Rightarrow> error + unit" where
  "req [] = Inr ()"
| "req (a # args) = (if a = [] then Inl SilentException else req args)"

definition new_transaction :: "form_input \<Rightarrow> transaction" where
  "new_transaction inp =
     \<lparr>Date = in_date inp, Description = in_description inp, Amount = in_amount inp,
      Vendor = in_vendor inp, Budget_Category = in_category inp, Buyer = in_buyer inp,
      Notes = (if in_notes inp \<noteq> [] then in_notes inp else [])\<rparr>"

definition add_new_transaction :: "form_input \<Rightarrow> frame \<Rightarrow> error + frame" where
  "add_new_transaction inp budget_data =
     (case req [in_description inp, in_vendor inp, in_buyer inp] of
        Inl e \<Rightarrow> Inl e
      | Inr _ \<Rightarrow> Inr (concat_row budget_data (new_transaction inp)))"

definition clear_all_data :: "frame \<Rightarrow> frame" where
  "clear_all_data budget_data = \<lparr>rows = [], YearMonth = None\<rparr>"

text \<open>
  An effect that raises never reaches \<^verbatim>\<open>budget_data.set\<close>: the cell keeps its frame.
\<close>

definition run_effect :: "(frame \<Rightarrow> error + frame) \<Rightarrow> frame \<Rightarrow> frame" where
  "run_effect effect budget_data =
     (case effect budget_data of Inl _ \<Rightarrow> budget_data | Inr updated_data \<Rightarrow> updated_data)"

text \<open>The keys of the choices an element offers.\<close>

definition offered_keys :: "ui_element \<Rightarrow> string list" where
  "offered_keys el = (case el of Paragraph _ \<Rightarrow> [] | Input_Select cs _ \<Rightarrow> map fst cs)"

section \<open>Properties of the library operations\<close>

lemma set_unique: "set (unique xs) = set xs"
  by (induction xs rule: unique.induct) auto

lemma distinct_unique: "distinct (unique xs)"
  by (induction xs rule: unique.induct) (auto simp: set_unique)

lemma set_sorted_reverse: "set (sorted_reverse xs) = set xs"
  by (simp add: sorted_reverse_def)

lemma distinct_sorted_reverse: "distinct (sorted_reverse xs) = distinct xs"
  by (simp add: sorted_reverse_def)

lemma sorted_reverse_descending: "sorted_wrt (\<lambda>a b. b \<le> a) (sorted_reverse xs)"
  by (simp add: sorted_reverse_def sorted_wrt_rev)



text \<open>The mask of \<open>select_month\<close> picks the transactions dated in the period.\<close>

lemma select_month_filter:
  "select_month data p = filter (\<lambda>t. to_period (Date t) = p) (rows data)"
proof -
  have "map fst (filter (\<lambda>(t, ym). ym = p) (zip xs (map f xs))) = filter (\<lambda>t. f t = p) xs"
    for xs :: "transaction list" and f
    by (induction xs) auto
  then show ?thesis
    by (simp add: select_month_def to_period_column_def)
qed

section \<open>What the readers do to the frame\<close>

lemma month_selector_frame:
  "snd (month_selector data) = (if rows data = [] then data else assign_YearMonth data)"
  by (simp add: month_selector_def Let_def)

lemma monthly_totals_frame:
  "snd (monthly_totals srt data (Some p)) = (if rows data = [] then data else assign_YearMonth data)"
  by (simp add: monthly_totals_def Let_def)

lemma readers_keep_rows:
  "rows (snd (month_selector data)) = rows data"
  "rows (snd (monthly_totals srt data sel)) = rows data"
  by (simp_all add: month_selector_def monthly_totals_def assign_YearMonth_def Let_def
      split: option.split)

section \<open>Rounding, grouping and the totals\<close>











section \<open>Date strings and descending sorts\<close>

















section \<open>The claims\<close>

text \<open>
  C2. With a non-empty description, vendor and buyer, \<open>add_new_transaction\<close> succeeds and
  the new frame holds the rows of the old one, in their places, followed by exactly one
  more row, whose seven fields are the seven inputs.
\<close>

theorem add_new_transaction_appends:
  assumes "in_description inp \<noteq> []" and "in_vendor inp \<noteq> []" and "in_buyer inp \<noteq> []"
  shows "\<exists>updated_data. add_new_transaction inp data = Inr updated_data
    \<and> run_effect (add_new_transaction inp) data = updated_data
    \<and> length (rows updated_data) = length (rows data) + 1
    \<and> take (length (rows data)) (rows updated_data) = rows data
    \<and> rows updated_data = rows data @
        [\<lparr>Date = in_date inp, Description = in_description inp, Amount = in_amount inp,
          Vendor = in_vendor inp, Budget_Category = in_category inp, Buyer = in_buyer inp,
          Notes = in_notes inp\<rparr>]"
  using assms
  by (simp add: add_new_transaction_def run_effect_def concat_row_def new_transaction_def)

theorem add_new_transaction_appends_witness:
  "\<exists>updated_data.
     add_new_transaction
       \<lparr>in_date = mk_date 2024 3 1, in_description = ''Bus pass'', in_amount = - 60,
        in_vendor = ''Metro'', in_category = ''Transportation'', in_buyer = ''Jane'',
        in_notes = ''''\<rparr> get_sample_data = Inr updated_data
     \<and> length (rows updated_data) = 7
     \<and> take 6 (rows updated_data) = rows get_sample_data
     \<and> Description (last (rows updated_data)) = ''Bus pass''"
  using add_new_transaction_appends [of
      "\<lparr>in_date = mk_date 2024 3 1, in_description = ''Bus pass'', in_amount = - 60,
        in_vendor = ''Metro'', in_category = ''Transportation'', in_buyer = ''Jane'',
        in_notes = ''''\<rparr>" get_sample_data]
  by (auto simp add: get_sample_data_def)

text \<open>
  C3. \<open>add_new_transaction\<close> raises (the exception is \<^verbatim>\<open>SilentException\<close>, the spec's
  validation error) exactly when the description, the vendor or the buyer is empty, and
  then the reactive cell keeps the frame it had: no row is added.
\<close>

theorem add_new_transaction_rejects_blank:
  "(add_new_transaction inp data = Inl SilentException
      \<longleftrightarrow> in_description inp = [] \<or> in_vendor inp = [] \<or> in_buyer inp = [])
   \<and> (in_description inp = [] \<or> in_vendor inp = [] \<or> in_buyer inp = []
      \<longrightarrow> run_effect (add_new_transaction inp) data = data)"
  by (simp add: add_new_transaction_def run_effect_def)

theorem add_new_transaction_rejects_blank_witness:
  "add_new_transaction
     \<lparr>in_date = mk_date 2024 3 1, in_description = '''', in_amount = - 60,
      in_vendor = ''Metro'', in_category = ''Transportation'', in_buyer = ''Jane'',
      in_notes = ''''\<rparr> get_sample_data = Inl SilentException
   \<and> length (rows (run_effect (add_new_transaction
     \<lparr>in_date = mk_date 2024 3 1, in_description = '''', in_amount = - 60,
      in_vendor = ''Metro'', in_category = ''Transportation'', in_buyer = ''Jane'',
      in_notes = ''''\<rparr>) get_sample_data)) = 6"
  using add_new_transaction_rejects_blank [of
      "\<lparr>in_date = mk_date 2024 3 1, in_description = '''', in_amount = - 60,
        in_vendor = ''Metro'', in_category = ''Transportation'', in_buyer = ''Jane'',
        in_notes = ''''\<rparr>" get_sample_data]
  by (simp add: get_sample_data_def)

text \<open>
  C4. \<open>clear_all_data\<close> is total; whatever the frame was, the new frame has no rows and no
  \<^verbatim>\<open>YearMonth\<close> column, the table of all transactions is empty, no month is offered
  (the selector shows its paragraph) and the monthly totals are empty.
\<close>

theorem clear_all_data_empties:
  "rows (clear_all_data data) = []
   \<and> YearMonth (clear_all_data data) = None
   \<and> all_transactions srt (clear_all_data data) = []
   \<and> available_months (clear_all_data data) = []
   \<and> fst (month_selector (clear_all_data data)) = Paragraph ''No data available''
   \<and> fst (monthly_totals srt' (clear_all_data data) sel) = []"
  by (simp add: clear_all_data_def all_transactions_def available_months_def
      month_selector_def monthly_totals_def split: option.split)

text \<open>
  C5. The months offered are exactly the periods of the dates in the frame, each once,
  the most recent first; a frame without rows offers none. The keys of the selector's
  choices are these periods, in this order.
\<close>

theorem available_months_distinct_descending:
  "set (available_months data) = (\<lambda>t. to_period (Date t)) ` set (rows data)
   \<and> distinct (available_months data)
   \<and> sorted_wrt (\<lambda>a b. b \<le> a) (available_months data)
   \<and> available_months (data\<lparr>rows := []\<rparr>) = []
   \<and> offered_keys (fst (month_selector data)) = map period_str (available_months data)"
proof -
  have "set (unique_months data) = (\<lambda>t. to_period (Date t)) ` set (rows data)"
    by (simp add: unique_months_def set_sorted_reverse set_unique to_period_column_def)
  then have "set (available_months data) = (\<lambda>t. to_period (Date t)) ` set (rows data)"
    by (simp add: available_months_def)
  moreover have "distinct (available_months data)"
    by (simp add: available_months_def unique_months_def distinct_sorted_reverse distinct_unique)
  moreover have "sorted_wrt (\<lambda>a b. b \<le> a) (available_months data)"
    by (simp add: available_months_def unique_months_def sorted_reverse_descending)
  moreover have "available_months (data\<lparr>rows := []\<rparr>) = []"
    by (simp add: available_months_def)
  moreover have "offered_keys (fst (month_selector data)) = map period_str (available_months data)"
    by (simp add: month_selector_def available_months_def offered_keys_def Let_def comp_def)
  ultimately show ?thesis
    by simp
qed

text \<open>
  C8. On the seeded frame the month selector assigns the \<^verbatim>\<open>YearMonth\<close> column to the
  frame held by the reactive cell: the rows are the same, the frame is not. (The table of
  all transactions works on a copy.)
\<close>

theorem month_selector_mutates_sample:
  "YearMonth get_sample_data = None
   \<and> YearMonth (snd (month_selector get_sample_data)) =
       Some [Some (2024, 1), Some (2024, 1), Some (2024, 1),
             Some (2024, 2), Some (2024, 2), Some (2024, 2)]
   \<and> rows (snd (month_selector get_sample_data)) = rows get_sample_data
   \<and> snd (month_selector get_sample_data) \<noteq> get_sample_data"
proof -
  have before: "YearMonth get_sample_data = None"
    by (simp add: get_sample_data_def)
  have after: "YearMonth (snd (month_selector get_sample_data)) =
       Some [Some (2024, 1), Some (2024, 1), Some (2024, 1),
             Some (2024, 2), Some (2024, 2), Some (2024, 2)]"
    by (simp add: month_selector_frame assign_YearMonth_def to_period_column_def to_period_def
        mk_date_def get_sample_data_def)
  have "rows (snd (month_selector get_sample_data)) = rows get_sample_data"
    by (rule readers_keep_rows)
  moreover from before after have "snd (month_selector get_sample_data) \<noteq> get_sample_data"
    by auto
  ultimately show ?thesis
    using before after by simp
qed

text \<open>
  C9. The category is not checked. With the three required fields non-empty, a
  transaction of any category, one of \<open>BUDGET_CATEGORIES\<close> or not, is stored with that
  category.
\<close>

theorem add_new_transaction_any_category:
  assumes "in_description inp \<noteq> []" and "in_vendor inp \<noteq> []" and "in_buyer inp \<noteq> []"
  shows "\<exists>updated_data. add_new_transaction (inp\<lparr>in_category := c\<rparr>) data = Inr updated_data
    \<and> rows updated_data = rows data @ [new_transaction (inp\<lparr>in_category := c\<rparr>)]
    \<and> Budget_Category (last (rows updated_data)) = c"
  using assms
  by (simp add: add_new_transaction_def concat_row_def new_transaction_def)

theorem add_new_transaction_any_category_witness:
  "\<exists>updated_data.
     add_new_transaction
       \<lparr>in_date = mk_date 2024 3 1, in_description = ''Bus pass'', in_amount = - 60,
        in_vendor = ''Metro'', in_category = ''Travel'', in_buyer = ''Jane'',
        in_notes = ''''\<rparr> get_sample_data = Inr updated_data
     \<and> Budget_Category (last (rows updated_data)) = ''Travel''"
  using add_new_transaction_any_category [of
      "\<lparr>in_date = mk_date 2024 3 1, in_description = ''Bus pass'', in_amount = - 60,
        in_vendor = ''Metro'', in_category = ''Transportation'', in_buyer = ''Jane'',
        in_notes = ''''\<rparr>" "''Travel''" get_sample_data]
  by auto

theorem add_new_transaction_category_counterexample:
  "''Travel'' \<notin> set BUDGET_CATEGORIES
   \<and> add_new_transaction
       \<lparr>in_date = mk_date 2024 3 1, in_description = ''Bus pass'', in_amount = - 60,
        in_vendor = ''Metro'', in_category = ''Travel'', in_buyer = ''Jane'',
        in_notes = ''''\<rparr> \<lparr>rows = [], YearMonth = None\<rparr>
     = Inr \<lparr>rows = [\<lparr>Date = mk_date 2024 3 1, Description = ''Bus pass'', Amount = - 60,
        Vendor = ''Metro'', Budget_Category = ''Travel'', Buyer = ''Jane'', Notes = ''''\<rparr>],
        YearMonth = None\<rparr>"
  by (simp add: BUDGET_CATEGORIES_def add_new_transaction_def concat_row_def
      new_transaction_def)

text \<open>
  C10. When no transaction of the frame is dated in the selected month, the monthly
  totals are the empty table, for every frame, empty or not.
\<close>

theorem monthly_totals_no_match_empty:
  assumes "\<forall>t \<in> set (rows data). to_period (Date t) \<noteq> p"
  shows "fst (monthly_totals srt data (Some p)) = []"
proof -
  from assms have "select_month data p = []"
    by (simp add: select_month_filter filter_empty_conv)
  then show ?thesis
    by (simp add: monthly_totals_def Let_def)
qed

theorem monthly_totals_no_match_empty_witness:
  "rows get_sample_data \<noteq> []
   \<and> list_all (\<lambda>t. to_period (Date t) \<noteq> (2023, 5)) (rows get_sample_data)
   \<and> fst (monthly_totals (sort_key Category) get_sample_data (Some (2023, 5)))
       = ([] :: total_row list)"
proof -
  have h: "\<forall>t \<in> set (rows get_sample_data). to_period (Date t) \<noteq> (2023, 5)"
    by (simp add: get_sample_data_def to_period_def mk_date_def)
  have "rows get_sample_data \<noteq> []"
    by (simp add: get_sample_data_def)
  moreover from h have "list_all (\<lambda>t. to_period (Date t) \<noteq> (2023, 5)) (rows get_sample_data)"
    by (simp only: list_all_iff)
  moreover have "fst (monthly_totals (sort_key Category) get_sample_data (Some (2023, 5)))
       = ([] :: total_row list)"
    using h by (rule monthly_totals_no_match_empty)
  ultimately show ?thesis
    by (intro conjI)
qed







end
